theory Spec2Isabelle
  imports Complex_Main
begin

section \<open>Firework rack planner: geometry kernel, view transform, history, metrics\<close>

text \<open>
  The development embeds the algorithmic core of \<^verbatim>\<open>firework2.py\<close> (class
  \<^verbatim>\<open>FireworkRackPlanner\<close>). Python dictionaries with a fixed set of keys are records,
  Python lists are lists, \<^verbatim>\<open>None\<close>-able values are options. Python \<^verbatim>\<open>int\<close> is
  \<^typ>\<open>int\<close>; values produced by \<^verbatim>\<open>range\<close> are \<^typ>\<open>nat\<close>. Python \<^verbatim>\<open>float\<close> is
  modelled by \<^typ>\<open>real\<close>, without rounding. The theorems below are about indices,
  orderings, the structure of the state and amounts given by one expression of the code;
  the concrete evaluations (racks at rotation 0, zoom 1, integer coordinates) are exact in
  double precision. Properties that the program has only up to rounding, such as the round
  trip of the view transform, the fixed point of a zoom step or the equality of the rotated
  bounding box with the unrotated dimensions, are not stated. Widget updates, redraws and
  status messages have no effect on the modelled state and are left out.
\<close>

subsection \<open>Data model\<close>

record tube =
  color :: string
  angle :: real
  lift_time :: real
  ttype :: string
  cue :: string

record rack =
  rid :: string
  name :: string
  rtype :: string
  x_tubes :: int
  y_tubes :: int
  pos_x :: real
  pos_y :: real
  tube_diameter :: real
  rotation_angle :: int
  tubes :: "tube list"

text \<open>Constants set in \<^verbatim>\<open>FireworkRackPlanner.__init__\<close>.\<close>

definition DEFAULT_TUBE_SPACING_RATIO :: real where
  "DEFAULT_TUBE_SPACING_RATIO = 0.2"

definition DEFAULT_FAN_PADDING_RATIO :: real where
  "DEFAULT_FAN_PADDING_RATIO = 0.2"

definition DEFAULT_INTER_FAN_SPACING_RATIO :: real where
  "DEFAULT_INTER_FAN_SPACING_RATIO = 0.5"

definition RACK_OUTER_PADDING :: real where
  "RACK_OUTER_PADDING = 5"

subsection \<open>Geometry kernel\<close>

definition radians :: "real \<Rightarrow> real" where
  "radians deg = deg * pi / 180"

text \<open>\<^verbatim>\<open>_rotate_point\<close>: rotate \<open>(x, y)\<close> about \<open>(cx, cy)\<close> by \<open>angle_deg\<close> degrees.\<close>

definition rotate_point :: "real \<Rightarrow> real \<Rightarrow> int \<Rightarrow> real \<Rightarrow> real \<Rightarrow> real \<times> real" where
  "rotate_point x y angle_deg cx cy =
     (let angle_rad = radians (of_int angle_deg);
          s = sin angle_rad; c = cos angle_rad;
          x' = x - cx; y' = y - cy
      in (x' * c - y' * s + cx, x' * s + y' * c + cy))"

text \<open>Python's \<^verbatim>\<open>range(n)\<close> for an integer \<open>n\<close>: empty when \<open>n \<le> 0\<close>.\<close>

definition range_py :: "int \<Rightarrow> nat list" where
  "range_py n = [0..<nat n]"

text \<open>
  \<^verbatim>\<open>_get_rack_dimensions_and_points\<close>, first part: width and height of the tube group.
  A rack whose type is neither \<^verbatim>\<open>"Crate"\<close> nor \<^verbatim>\<open>"Fan"\<close> keeps the initial \<open>(0, 0)\<close>.
\<close>

definition tube_group_dims :: "rack \<Rightarrow> real \<times> real" where
  "tube_group_dims r =
     (let cols_or_fans = x_tubes r; rows_or_tubes_per_fan = y_tubes r;
          d = tube_diameter r
      in if rtype r = ''Crate'' then
           (let spacing = DEFAULT_TUBE_SPACING_RATIO * d
            in (of_int cols_or_fans * d + of_int (max 0 (cols_or_fans - 1)) * spacing,
                of_int rows_or_tubes_per_fan * d
                  + of_int (max 0 (rows_or_tubes_per_fan - 1)) * spacing))
         else if rtype r = ''Fan'' then
           (let fan_visual_padding = DEFAULT_FAN_PADDING_RATIO * d;
                fan_rect_width_per_segment = d + 2 * fan_visual_padding;
                spacing_x_between_fans = DEFAULT_INTER_FAN_SPACING_RATIO * d;
                spacing_y_in_fan = DEFAULT_TUBE_SPACING_RATIO * d;
                height_of_one_fan_tubes =
                  of_int rows_or_tubes_per_fan * d
                    + of_int (max 0 (rows_or_tubes_per_fan - 1)) * spacing_y_in_fan
            in (of_int cols_or_fans * fan_rect_width_per_segment
                  + of_int (max 0 (cols_or_fans - 1)) * spacing_x_between_fans,
                height_of_one_fan_tubes + 2 * fan_visual_padding))
         else (0, 0))"

text \<open>Overall unrotated rack dimensions including the outer padding.\<close>

definition unrotated_rack_dims :: "rack \<Rightarrow> real \<times> real" where
  "unrotated_rack_dims r =
     (let (gw, gh) = tube_group_dims r
      in (gw + 2 * RACK_OUTER_PADDING, gh + 2 * RACK_OUTER_PADDING))"

definition center_local :: "rack \<Rightarrow> real \<times> real" where
  "center_local r = (let (w, h) = unrotated_rack_dims r in (w / 2, h / 2))"

text \<open>
  A local point is rotated about the local centre and then translated by
  \<open>base - center_local\<close>; the source writes this out for the corners and for every tube.
\<close>

definition to_world :: "rack \<Rightarrow> real \<times> real \<Rightarrow> real \<times> real" where
  "to_world r p =
     (let (cx, cy) = center_local r;
          (px, py) = rotate_point (fst p) (snd p) (rotation_angle r) cx cy
      in (pos_x r - cx + px, pos_y r - cy + py))"

definition rotated_outline_points_absolute :: "rack \<Rightarrow> (real \<times> real) list" where
  "rotated_outline_points_absolute r =
     (let (w, h) = unrotated_rack_dims r;
          corners_unrotated_local = [(0, 0), (w, 0), (w, h), (0, h)]
      in map (to_world r) corners_unrotated_local)"

text \<open>Python's \<^verbatim>\<open>min\<close> and \<^verbatim>\<open>max\<close> over a non-empty sequence.\<close>

fun min_py :: "real list \<Rightarrow> real" where
  "min_py [] = 0"
| "min_py (x # xs) = fold min xs x"

fun max_py :: "real list \<Rightarrow> real" where
  "max_py [] = 0"
| "max_py (x # xs) = fold max xs x"

text \<open>
  Bounding box of the rotated rack. The outline always has four points; the source's
  fallback for an empty outline is kept as the second branch.
\<close>

definition rotated_bbox :: "rack \<Rightarrow> real \<times> real" where
  "rotated_bbox r =
     (let pts = rotated_outline_points_absolute r;
          (w, h) = unrotated_rack_dims r;
          (min_x, max_x, min_y, max_y) =
            (if pts \<noteq> [] then
               (min_py (map fst pts), max_py (map fst pts),
                min_py (map snd pts), max_py (map snd pts))
             else (pos_x r, pos_x r + w, pos_y r, pos_y r + h))
      in (max_x - min_x, max_y - min_y))"

definition effective_tube_diameter :: "rack \<Rightarrow> real" where
  "effective_tube_diameter r = max (tube_diameter r) 10"

text \<open>Local centre of the Crate tube in column \<open>c_idx\<close> and row \<open>r_idx\<close> (the loop body).\<close>

definition crate_local_center :: "rack \<Rightarrow> nat \<Rightarrow> nat \<Rightarrow> real \<times> real" where
  "crate_local_center r c_idx r_idx =
     (let d = tube_diameter r; spacing = DEFAULT_TUBE_SPACING_RATIO * d
      in (RACK_OUTER_PADDING + of_nat c_idx * (d + spacing) + d / 2,
          RACK_OUTER_PADDING + of_nat r_idx * (d + spacing) + d / 2))"

text \<open>Local centre of tube \<open>t_idx\<close> of fan segment \<open>f_idx\<close> (the loop body).\<close>

definition fan_local_center :: "rack \<Rightarrow> nat \<Rightarrow> nat \<Rightarrow> real \<times> real" where
  "fan_local_center r f_idx t_idx =
     (let d = tube_diameter r;
          spacing_y_in_fan = DEFAULT_TUBE_SPACING_RATIO * d;
          fan_visual_padding = DEFAULT_FAN_PADDING_RATIO * d;
          fan_rect_width_per_segment = d + 2 * fan_visual_padding;
          spacing_x_between_fans = DEFAULT_INTER_FAN_SPACING_RATIO * d;
          fan_segment_content_start_x =
            RACK_OUTER_PADDING
              + of_nat f_idx * (fan_rect_width_per_segment + spacing_x_between_fans);
          fan_segment_content_start_y = RACK_OUTER_PADDING
      in (fan_segment_content_start_x + fan_visual_padding + d / 2,
          fan_segment_content_start_y + fan_visual_padding
            + of_nat t_idx * (d + spacing_y_in_fan) + d / 2))"

type_synonym tube_point = "nat \<times> real \<times> real \<times> real"

text \<open>
  One iteration of an inner loop: append \<open>(tube_idx_counter, cx, cy, dia)\<close> and
  increment the counter. The loop state is the list built so far and the counter.
\<close>

definition emit_tube :: "rack \<Rightarrow> real \<times> real \<Rightarrow> tube_point list \<times> nat \<Rightarrow> tube_point list \<times> nat" where
  "emit_tube r local st =
     (let (acc, tube_idx_counter) = st; (wx, wy) = to_world r local
      in (acc @ [(tube_idx_counter, wx, wy, effective_tube_diameter r)],
          tube_idx_counter + 1))"

text \<open>
  The tube loops: for a Crate the outer loop runs over rows and the inner one over columns;
  for a Fan the outer loop runs over segments (\<open>x_tubes\<close>) and the inner one over the tubes
  of the segment (\<open>y_tubes\<close>).
\<close>

definition tube_center_points :: "rack \<Rightarrow> tube_point list" where
  "tube_center_points r =
     (let cols_or_fans = x_tubes r; rows_or_tubes_per_fan = y_tubes r
      in if rtype r = ''Crate'' then
           fst (foldl (\<lambda>st r_idx.
                  foldl (\<lambda>st c_idx. emit_tube r (crate_local_center r c_idx r_idx) st)
                    st (range_py cols_or_fans))
                ([], 0) (range_py rows_or_tubes_per_fan))
         else if rtype r = ''Fan'' then
           fst (foldl (\<lambda>st f_idx.
                  foldl (\<lambda>st t_idx. emit_tube r (fan_local_center r f_idx t_idx) st)
                    st (range_py rows_or_tubes_per_fan))
                ([], 0) (range_py cols_or_fans))
         else [])"

definition get_rack_dimensions_and_points ::
  "rack \<Rightarrow> tube_point list \<times> (real \<times> real) list \<times> (real \<times> real) \<times> real \<times> real" where
  "get_rack_dimensions_and_points r =
     (tube_center_points r, rotated_outline_points_absolute r, unrotated_rack_dims r,
      fst (rotated_bbox r), snd (rotated_bbox r))"

text \<open>The rack of the scenario: Crate, 3 columns, 2 rows, diameter 20, at (50, 50), unrotated.\<close>

definition pink_tube :: tube where
  "pink_tube = \<lparr>color = ''pink'', angle = 0, lift_time = 0, ttype = ''Standard'', cue = ''''\<rparr>"

definition scenario_crate :: rack where
  "scenario_crate =
     \<lparr>rid = ''r1'', name = ''Crate Rack 1'', rtype = ''Crate'', x_tubes = 3, y_tubes = 2,
      pos_x = 50, pos_y = 50, tube_diameter = 20, rotation_angle = 0,
      tubes = replicate 6 pink_tube\<rparr>"

text \<open>A tube entry of the kernel's output: index, world centre and effective diameter.\<close>

definition mk_point :: "rack \<Rightarrow> nat \<Rightarrow> real \<times> real \<Rightarrow> tube_point" where
  "mk_point r k local =
     (k, fst (to_world r local), snd (to_world r local), effective_tube_diameter r)"

definition tube_center :: "tube_point \<Rightarrow> real \<times> real" where
  "tube_center tp = (case tp of (tube_idx, cx, cy, dia) \<Rightarrow> (cx, cy))"

definition point_diameter :: "tube_point \<Rightarrow> real" where
  "point_diameter tp = (case tp of (tube_idx, cx, cy, dia) \<Rightarrow> dia)"

text \<open>A Fan rack with 2 segments of 3 tubes each, diameter 20, centred at the origin.\<close>

definition scenario_fan :: rack where
  "scenario_fan =
     \<lparr>rid = ''f1'', name = ''Fan Rack 1'', rtype = ''Fan'', x_tubes = 2, y_tubes = 3,
      pos_x = 0, pos_y = 0, tube_diameter = 20, rotation_angle = 0,
      tubes = replicate 6 pink_tube\<rparr>"

subsection \<open>Scene model and view state\<close>

record flow_line =
  lid :: string
  fl_x1 :: real
  fl_y1 :: real
  fl_x2 :: real
  fl_y2 :: real
  fl_color :: string
  fl_width :: real
  fl_label :: string

record tube_connection =
  cid :: string
  source_rack_id :: string
  source_tube_idx :: nat
  target_rack_id :: string
  target_tube_idx :: nat
  conn_color :: string

record canvas_view =
  zoom :: real
  pan_x :: real
  pan_y :: real

text \<open>An entry of the undo or redo stack, as built by \<^verbatim>\<open>_capture_current_state\<close>.\<close>

record history_entry =
  h_racks :: "rack list"
  h_flow_lines :: "flow_line list"
  h_tube_connections :: "tube_connection list"
  h_selected_rack_ids :: "string list"
  h_selected_flow_line_id :: "string option"
  h_canvas_view :: canvas_view

text \<open>
  The fields of \<^verbatim>\<open>FireworkRackPlanner\<close> that the modelled commands read or write.
  Stacks grow at the end of the list, as \<^verbatim>\<open>append\<close> and \<^verbatim>\<open>pop()\<close> do.
\<close>

record planner =
  racks_on_canvas :: "rack list"
  flow_lines_on_canvas :: "flow_line list"
  tube_connections :: "tube_connection list"
  selected_rack_ids :: "string list"
  selected_flow_line_id :: "string option"
  zoom_level :: real
  pan_offset_x :: real
  pan_offset_y :: real
  undo_stack :: "history_entry list"
  redo_stack :: "history_entry list"
  dragging_rack_id :: "string option"
  drag_start_positions :: "(string \<times> real \<times> real) list"
  drag_operation_pending_undo_state :: "history_entry option"
  flow_line_start_point :: "(real \<times> real) option"
  first_tube_for_connection :: "(string \<times> nat) option"
  drawing_flow_line_mode :: bool
  connecting_tubes_mode :: bool

datatype py_error = ZeroDivisionError | ValueError | KeyError

definition MAX_UNDO_STEPS :: nat where
  "MAX_UNDO_STEPS = 50"

definition ROTATION_DEGREES :: "int list" where
  "ROTATION_DEGREES = [0, 90, 180, 270]"

text \<open>\<^verbatim>\<open>FUSE_COLORS_MAP\<close> in insertion order; \<^verbatim>\<open>FUSE_COLOR_CHOICES\<close> is its list of keys.\<close>

definition FUSE_COLORS_MAP :: "(string \<times> string) list" where
  "FUSE_COLORS_MAP =
     [(''White'', ''white''), (''Yellow'', ''yellow''), (''Pink'', ''pink''),
      (''Blue'', ''lightblue''), (''Orange'', ''orange''), (''Green'', ''lightgreen'')]"

definition FUSE_COLOR_CHOICES :: "string list" where
  "FUSE_COLOR_CHOICES = map fst FUSE_COLORS_MAP"

text \<open>Truthiness of an id that is \<^verbatim>\<open>None\<close> or a string.\<close>

definition truthy_id :: "string option \<Rightarrow> bool" where
  "truthy_id x = (case x of None \<Rightarrow> False | Some i \<Rightarrow> i \<noteq> [])"

text \<open>\<^verbatim>\<open>list.index\<close>: position of the first equal element, \<^verbatim>\<open>ValueError\<close> as \<open>None\<close>.\<close>

fun index_py :: "'a list \<Rightarrow> 'a \<Rightarrow> nat option" where
  "index_py [] x = None"
| "index_py (y # ys) x = (if y = x then Some 0 else map_option Suc (index_py ys x))"

text \<open>
  \<^verbatim>\<open>next((r for r in xs if P r), None)\<close> followed by an in-place update of the object
  found: the first element satisfying \<open>P\<close> is replaced, the list is otherwise unchanged.
\<close>

fun update_first :: "('a \<Rightarrow> bool) \<Rightarrow> ('a \<Rightarrow> 'a) \<Rightarrow> 'a list \<Rightarrow> 'a list" where
  "update_first P f [] = []"
| "update_first P f (x # xs) = (if P x then f x # xs else x # update_first P f xs)"

subsection \<open>View transform\<close>

text \<open>The divisions raise \<^verbatim>\<open>ZeroDivisionError\<close> when the zoom level is zero.\<close>

definition canvas_to_world :: "planner \<Rightarrow> real \<Rightarrow> real \<Rightarrow> py_error + real \<times> real" where
  "canvas_to_world s canvas_x canvas_y =
     (if zoom_level s = 0 then Inl ZeroDivisionError
      else Inr (canvas_x / zoom_level s + pan_offset_x s,
                canvas_y / zoom_level s + pan_offset_y s))"

subsection \<open>History manager\<close>

definition capture_current_state :: "planner \<Rightarrow> history_entry" where
  "capture_current_state s =
     \<lparr>h_racks = racks_on_canvas s, h_flow_lines = flow_lines_on_canvas s,
      h_tube_connections = tube_connections s,
      h_selected_rack_ids = selected_rack_ids s,
      h_selected_flow_line_id = selected_flow_line_id s,
      h_canvas_view =
        \<lparr>zoom = zoom_level s, pan_x = pan_offset_x s, pan_y = pan_offset_y s\<rparr>\<rparr>"

text \<open>
  \<^verbatim>\<open>_restore_state_from_history\<close>. Every entry is built by
  \<^verbatim>\<open>_capture_current_state\<close>, so the view is always present and the defaults of the
  source's \<^verbatim>\<open>.get\<close> calls are never used.
\<close>

definition restore_state_from_history :: "planner \<Rightarrow> history_entry \<Rightarrow> planner" where
  "restore_state_from_history s h =
     s\<lparr>racks_on_canvas := h_racks h, flow_lines_on_canvas := h_flow_lines h,
       tube_connections := h_tube_connections h,
       selected_rack_ids := h_selected_rack_ids h,
       selected_flow_line_id := h_selected_flow_line_id h,
       zoom_level := zoom (h_canvas_view h),
       pan_offset_x := pan_x (h_canvas_view h),
       pan_offset_y := pan_y (h_canvas_view h),
       dragging_rack_id := None, drag_start_positions := [],
       drag_operation_pending_undo_state := None,
       flow_line_start_point := None, first_tube_for_connection := None\<rparr>"

definition push_to_undo_stack :: "planner \<Rightarrow> history_entry \<Rightarrow> planner" where
  "push_to_undo_stack s state_to_push =
     (let u = undo_stack s @ [state_to_push];
          u' = (if length u > MAX_UNDO_STEPS then tl u else u)
      in s\<lparr>undo_stack := u', redo_stack := []\<rparr>)"

definition record_state_for_undo :: "planner \<Rightarrow> planner" where
  "record_state_for_undo s = push_to_undo_stack s (capture_current_state s)"

definition undo_action :: "planner \<Rightarrow> planner" where
  "undo_action s =
     (if undo_stack s = [] then s
      else let s1 = s\<lparr>redo_stack := redo_stack s @ [capture_current_state s]\<rparr>;
               entry = last (undo_stack s1);
               s2 = s1\<lparr>undo_stack := butlast (undo_stack s1)\<rparr>
           in restore_state_from_history s2 entry)"

definition redo_action :: "planner \<Rightarrow> planner" where
  "redo_action s =
     (if redo_stack s = [] then s
      else let s1 = s\<lparr>undo_stack := undo_stack s @ [capture_current_state s]\<rparr>;
               entry = last (redo_stack s1);
               s2 = s1\<lparr>redo_stack := butlast (redo_stack s1)\<rparr>
           in restore_state_from_history s2 entry)"

subsection \<open>Interaction commands\<close>

text \<open>The hit test shared by tube connection and tube colour cycling.\<close>

definition tube_hit :: "real \<Rightarrow> real \<Rightarrow> tube_point \<Rightarrow> bool" where
  "tube_hit world_x world_y tp =
     (case tp of (tube_idx, tube_cx, tube_cy, tube_dia) \<Rightarrow>
        (world_x - tube_cx)\<^sup>2 + (world_y - tube_cy)\<^sup>2 \<le> (tube_dia / 2)\<^sup>2)"

text \<open>The two nested loops of \<^verbatim>\<open>_get_tube_at_canvas_coords\<close> over a list of racks.\<close>

fun first_tube_hit :: "real \<Rightarrow> real \<Rightarrow> rack list \<Rightarrow> (string \<times> nat) option" where
  "first_tube_hit world_x world_y [] = None"
| "first_tube_hit world_x world_y (rack_config # rest) =
     (case find (tube_hit world_x world_y) (tube_center_points rack_config) of
        Some tp \<Rightarrow> Some (rid rack_config, fst tp)
      | None \<Rightarrow> first_tube_hit world_x world_y rest)"

definition get_tube_at_canvas_coords ::
  "planner \<Rightarrow> real \<Rightarrow> real \<Rightarrow> py_error + (string \<times> nat) option" where
  "get_tube_at_canvas_coords s canvas_x canvas_y =
     (case canvas_to_world s canvas_x canvas_y of
        Inl err \<Rightarrow> Inl err
      | Inr (world_x, world_y) \<Rightarrow>
          Inr (first_tube_hit world_x world_y (rev (racks_on_canvas s))))"

text \<open>
  \<^verbatim>\<open>on_canvas_press_connect_tubes_mode\<close>; \<open>new_id\<close> stands for the fresh
  \<^verbatim>\<open>uuid.uuid4()\<close>.
\<close>

definition on_canvas_press_connect_tubes_mode ::
  "planner \<Rightarrow> real \<Rightarrow> real \<Rightarrow> string \<Rightarrow> py_error + planner" where
  "on_canvas_press_connect_tubes_mode s ex ey new_id =
     (if \<not> connecting_tubes_mode s then Inr s
      else case get_tube_at_canvas_coords s ex ey of
        Inl err \<Rightarrow> Inl err
      | Inr None \<Rightarrow> Inr (s\<lparr>first_tube_for_connection := None\<rparr>)
      | Inr (Some (clicked_rack_id, clicked_tube_idx)) \<Rightarrow>
          (case first_tube_for_connection s of
             None \<Rightarrow>
               Inr (s\<lparr>first_tube_for_connection := Some (clicked_rack_id, clicked_tube_idx)\<rparr>)
           | Some (source_rack, source_idx) \<Rightarrow>
               if source_rack = clicked_rack_id \<and> source_idx = clicked_tube_idx then Inr s
               else
                 (let connection =
                        \<lparr>cid = new_id, source_rack_id = source_rack,
                         source_tube_idx = source_idx, target_rack_id = clicked_rack_id,
                         target_tube_idx = clicked_tube_idx, conn_color = ''#00FF00''\<rparr>;
                      s1 = s\<lparr>tube_connections := tube_connections s @ [connection]\<rparr>;
                      s2 = record_state_for_undo s1
                  in Inr (s2\<lparr>first_tube_for_connection := None\<rparr>))))"

text \<open>
  The colour computation of \<^verbatim>\<open>on_canvas_shift_click\<close>: the name of the current
  colour (the first choice when the colour is not in the palette), then the value of the
  next choice, wrapping around.
\<close>

definition cycle_color :: "string \<Rightarrow> py_error + string" where
  "cycle_color current_color_value =
     (let current_color_name =
            (case find (\<lambda>(n, val). val = current_color_value) FUSE_COLORS_MAP of
               Some (n, val) \<Rightarrow> n
             | None \<Rightarrow> hd FUSE_COLOR_CHOICES)
      in case index_py FUSE_COLOR_CHOICES current_color_name of
           None \<Rightarrow> Inl ValueError
         | Some current_choice_idx \<Rightarrow>
             (let new_color_name =
                    FUSE_COLOR_CHOICES
                      ! ((current_choice_idx + 1) mod length FUSE_COLOR_CHOICES)
              in case map_of FUSE_COLORS_MAP new_color_name of
                   None \<Rightarrow> Inl KeyError
                 | Some v \<Rightarrow> Inr v))"

text \<open>
  \<^verbatim>\<open>on_canvas_shift_click\<close>: the loop returns at the first tube that is hit and whose
  index is within the rack's tube list.
\<close>

definition on_canvas_shift_click :: "planner \<Rightarrow> real \<Rightarrow> real \<Rightarrow> py_error + planner" where
  "on_canvas_shift_click s ex ey =
     (if drawing_flow_line_mode s \<or> connecting_tubes_mode s then Inr s
      else if length (selected_rack_ids s) \<noteq> 1 then Inr s
      else
        (let selected_rack_id = hd (selected_rack_ids s)
         in case find (\<lambda>r. rid r = selected_rack_id) (racks_on_canvas s) of
              None \<Rightarrow> Inr s
            | Some selected_rack_config \<Rightarrow>
                (case canvas_to_world s ex ey of
                   Inl err \<Rightarrow> Inl err
                 | Inr (world_event_x, world_event_y) \<Rightarrow>
                     (case find (\<lambda>tp. tube_hit world_event_x world_event_y tp
                                      \<and> fst tp < length (tubes selected_rack_config))
                             (tube_center_points selected_rack_config) of
                        None \<Rightarrow> Inr s
                      | Some tp \<Rightarrow>
                          (let i = fst tp
                           in case cycle_color (color (tubes selected_rack_config ! i)) of
                                Inl err \<Rightarrow> Inl err
                              | Inr new_color \<Rightarrow>
                                  (let s1 = s\<lparr>racks_on_canvas :=
                                              update_first (\<lambda>r. rid r = selected_rack_id)
                                                (\<lambda>r. r\<lparr>tubes :=
                                                   (tubes r)[i := (tubes r ! i)\<lparr>color := new_color\<rparr>]\<rparr>)
                                                (racks_on_canvas s)\<rparr>
                                   in Inr (record_state_for_undo s1)))))))"

text \<open>The rotation step of \<^verbatim>\<open>rotate_selected_racks_action\<close> for one rack.\<close>

definition next_rotation :: "int \<Rightarrow> int" where
  "next_rotation current_angle =
     (case index_py ROTATION_DEGREES current_angle of
        Some current_angle_idx \<Rightarrow>
          ROTATION_DEGREES ! ((current_angle_idx + 1) mod length ROTATION_DEGREES)
      | None \<Rightarrow> hd ROTATION_DEGREES)"

definition rotate_selected_racks_action :: "planner \<Rightarrow> planner" where
  "rotate_selected_racks_action s =
     (if truthy_id (selected_flow_line_id s) then s
      else if selected_rack_ids s = [] then s
      else
        (let s1 = record_state_for_undo s
         in foldl (\<lambda>st rack_id.
                st\<lparr>racks_on_canvas :=
                     update_first (\<lambda>r. rid r = rack_id)
                       (\<lambda>r. r\<lparr>rotation_angle := next_rotation (rotation_angle r)\<rparr>)
                       (racks_on_canvas st)\<rparr>)
              s1 (selected_rack_ids s1)))"

text \<open>
  \<^verbatim>\<open>delete_selected_item\<close>; \<open>confirmed\<close> is the answer of the confirmation dialog.
  \<^verbatim>\<open>list.remove\<close> deletes the first element equal to its argument.
\<close>

definition delete_selected_item :: "planner \<Rightarrow> bool \<Rightarrow> planner" where
  "delete_selected_item s confirmed =
     (if truthy_id (selected_flow_line_id s) then
        (case find (\<lambda>line. Some (lid line) = selected_flow_line_id s)
                (flow_lines_on_canvas s) of
           Some line_to_delete \<Rightarrow>
             if confirmed then
               (let s1 = record_state_for_undo s
                in s1\<lparr>flow_lines_on_canvas := remove1 line_to_delete (flow_lines_on_canvas s1),
                       selected_flow_line_id := None\<rparr>)
             else s
         | None \<Rightarrow> s\<lparr>selected_flow_line_id := None\<rparr>)
      else if selected_rack_ids s \<noteq> [] then
        (if confirmed then
           (let s1 = record_state_for_undo s;
                deleted_rack_ids_set = set (selected_rack_ids s1);
                s2 = s1\<lparr>racks_on_canvas :=
                          filter (\<lambda>r. rid r \<notin> set (selected_rack_ids s1)) (racks_on_canvas s1)\<rparr>;
                s3 = (case dragging_rack_id s2 of
                        Some d \<Rightarrow> if d \<in> set (selected_rack_ids s2)
                                  then s2\<lparr>dragging_rack_id := None\<rparr> else s2
                      | None \<Rightarrow> s2);
                s4 = s3\<lparr>selected_rack_ids := []\<rparr>
            in s4\<lparr>tube_connections :=
                     filter (\<lambda>c. source_rack_id c \<notin> deleted_rack_ids_set
                                 \<and> target_rack_id c \<notin> deleted_rack_ids_set)
                       (tube_connections s4)\<rparr>)
         else s)
      else s)"

text \<open>
  The selection invariant of the data model: a selected flow line excludes a rack selection.
\<close>

definition selection_exclusive :: "planner \<Rightarrow> bool" where
  "selection_exclusive s =
     (selected_flow_line_id s = None \<or> selected_rack_ids s = [])"

subsection \<open>Derived metrics\<close>

definition DEFAULT_CRATE_FUSE_INCHES :: real where
  "DEFAULT_CRATE_FUSE_INCHES = 70.0"

definition FAN_CHAIN_INTER_TUBE_ALLOWANCE_INCHES :: real where
  "FAN_CHAIN_INTER_TUBE_ALLOWANCE_INCHES = 3.0"

definition FAN_CHAIN_INTER_SEGMENT_ALLOWANCE_INCHES :: real where
  "FAN_CHAIN_INTER_SEGMENT_ALLOWANCE_INCHES = 0.0"

definition FAN_CHAIN_LEAD_INCHES :: real where
  "FAN_CHAIN_LEAD_INCHES = 3.0"

definition FAN_CHAIN_TAIL_INCHES :: real where
  "FAN_CHAIN_TAIL_INCHES = 3.0"

definition FUSE_LENGTH_SCALE_FACTOR :: real where
  "FUSE_LENGTH_SCALE_FACTOR = 0.9"

text \<open>
  The closed-form fuse total of one rack in \<^verbatim>\<open>_update_canvas_summary_info\<close>
  (\<^verbatim>\<open>current_rack_total_fuse_length_inches\<close>).
\<close>

definition rack_total_fuse_length_inches :: "rack \<Rightarrow> real" where
  "rack_total_fuse_length_inches r =
     (let num_tubes_in_rack = x_tubes r * y_tubes r
      in if rtype r = ''Crate'' then
           (let base_crate_tubes = (5 * 5 :: int);
                scale_factor = (if base_crate_tubes > 0
                                then of_int num_tubes_in_rack / of_int base_crate_tubes
                                else 1)
            in DEFAULT_CRATE_FUSE_INCHES * scale_factor)
         else if rtype r = ''Fan'' then
           (let num_segments = x_tubes r; tubes_per_segment = y_tubes r
            in if num_segments > 0 \<and> tubes_per_segment > 0 then
                 (let fuse_within_all_segments =
                        of_int (num_segments * max 0 (tubes_per_segment - 1))
                          * FAN_CHAIN_INTER_TUBE_ALLOWANCE_INCHES;
                      fuse_linking_segments =
                        of_int (max 0 (num_segments - 1))
                          * FAN_CHAIN_INTER_SEGMENT_ALLOWANCE_INCHES
                  in FAN_CHAIN_LEAD_INCHES + fuse_within_all_segments
                       + fuse_linking_segments + FAN_CHAIN_TAIL_INCHES)
               else 0)
         else 0)"

text \<open>
  The amount added to a colour's running total for one tube of the rack
  (\<^verbatim>\<open>fuse_per_tube_in_rack_inches\<close>).
\<close>

definition fuse_per_tube_in_rack_inches :: "rack \<Rightarrow> real" where
  "fuse_per_tube_in_rack_inches r =
     rack_total_fuse_length_inches r * FUSE_LENGTH_SCALE_FACTOR
       / of_int (x_tubes r * y_tubes r)"

text \<open>
  One iteration of the loop over racks. The loop state is \<open>total_tubes\<close> and the
  \<^verbatim>\<open>defaultdict(float)\<close> of fuse lengths by colour, a total function with default 0.
\<close>

definition summary_step :: "int \<times> (string \<Rightarrow> real) \<Rightarrow> rack \<Rightarrow> int \<times> (string \<Rightarrow> real)" where
  "summary_step st r =
     (let (total_tubes, fuse_lengths) = st;
          num_tubes_in_rack = x_tubes r * y_tubes r;
          total_tubes' = total_tubes + num_tubes_in_rack
      in if num_tubes_in_rack = 0 then (total_tubes', fuse_lengths)
         else if rack_total_fuse_length_inches r > 0 \<and> num_tubes_in_rack > 0 then
           (total_tubes',
            foldl (\<lambda>m tube_data.
                     m(color tube_data := m (color tube_data) + fuse_per_tube_in_rack_inches r))
              fuse_lengths (tubes r))
         else (total_tubes', fuse_lengths))"

definition summary_totals :: "rack list \<Rightarrow> int \<times> (string \<Rightarrow> real)" where
  "summary_totals racks = foldl summary_step (0, \<lambda>c. 0) racks"

definition fuse_lengths_by_color_value :: "rack list \<Rightarrow> string \<Rightarrow> real" where
  "fuse_lengths_by_color_value racks = snd (summary_totals racks)"

text \<open>What one rack adds to the running total of colour \<open>c\<close>.\<close>

definition rack_contribution :: "rack \<Rightarrow> string \<Rightarrow> real" where
  "rack_contribution r c =
     (if x_tubes r * y_tubes r > 0 \<and> rack_total_fuse_length_inches r > 0
      then of_nat (length (filter (\<lambda>t. color t = c) (tubes r)))
             * fuse_per_tube_in_rack_inches r
      else 0)"

text \<open>A Crate rack of 5 by 5 pink tubes, the base size of the fuse estimate.\<close>

definition crate_5x5 :: rack where
  "crate_5x5 =
     \<lparr>rid = ''c5'', name = ''Crate Rack 2'', rtype = ''Crate'', x_tubes = 5, y_tubes = 5,
      pos_x = 50, pos_y = 50, tube_diameter = 20, rotation_angle = 0,
      tubes = replicate 25 pink_tube\<rparr>"

subsection \<open>Concrete scenes\<close>

text \<open>The planner as \<^verbatim>\<open>__init__\<close> leaves it: empty scene, zoom 1, no pan.\<close>

definition initial_planner :: planner where
  "initial_planner =
     \<lparr>racks_on_canvas = [], flow_lines_on_canvas = [], tube_connections = [],
      selected_rack_ids = [], selected_flow_line_id = None,
      zoom_level = 1, pan_offset_x = 0, pan_offset_y = 0,
      undo_stack = [], redo_stack = [],
      dragging_rack_id = None, drag_start_positions = [],
      drag_operation_pending_undo_state = None,
      flow_line_start_point = None, first_tube_for_connection = None,
      drawing_flow_line_mode = False, connecting_tubes_mode = False\<rparr>"

text \<open>A Crate rack with a single tube of diameter 4, centred at the origin.\<close>

definition narrow_crate :: rack where
  "narrow_crate =
     \<lparr>rid = ''n1'', name = ''Crate Rack 3'', rtype = ''Crate'', x_tubes = 1, y_tubes = 1,
      pos_x = 0, pos_y = 0, tube_diameter = 4, rotation_angle = 0,
      tubes = [pink_tube]\<rparr>"

definition narrow_scene :: planner where
  "narrow_scene = initial_planner\<lparr>racks_on_canvas := [narrow_crate]\<rparr>"

text \<open>The scenario rack alone on the canvas and selected.\<close>

definition scenario_scene :: planner where
  "scenario_scene =
     initial_planner\<lparr>racks_on_canvas := [scenario_crate], selected_rack_ids := [''r1'']\<rparr>"

text \<open>
  The scenario Crate and the scenario Fan on the canvas with three connections, the Crate
  selected.
\<close>

definition conn_crate_fan :: tube_connection where
  "conn_crate_fan =
     \<lparr>cid = ''k1'', source_rack_id = ''r1'', source_tube_idx = 0,
      target_rack_id = ''f1'', target_tube_idx = 0, conn_color = ''#00FF00''\<rparr>"

definition conn_fan_fan :: tube_connection where
  "conn_fan_fan =
     \<lparr>cid = ''k2'', source_rack_id = ''f1'', source_tube_idx = 0,
      target_rack_id = ''f1'', target_tube_idx = 1, conn_color = ''#00FF00''\<rparr>"

definition conn_crate_crate :: tube_connection where
  "conn_crate_crate =
     \<lparr>cid = ''k3'', source_rack_id = ''r1'', source_tube_idx = 0,
      target_rack_id = ''r1'', target_tube_idx = 1, conn_color = ''#00FF00''\<rparr>"

definition connected_scene :: planner where
  "connected_scene =
     initial_planner\<lparr>racks_on_canvas := [scenario_crate, scenario_fan],
       tube_connections := [conn_crate_fan, conn_fan_fan, conn_crate_crate],
       selected_rack_ids := [''r1'']\<rparr>"

text \<open>The scenario rack after its tube 0 went from pink to the next colour of the palette.\<close>

definition recolored_crate :: rack where
  "recolored_crate =
     scenario_crate\<lparr>tubes := (pink_tube\<lparr>color := ''lightblue''\<rparr>) # replicate 5 pink_tube\<rparr>"

text \<open>The narrow rack selected, and the narrow rack in tube-connection mode.\<close>

definition narrow_selected_scene :: planner where
  "narrow_selected_scene = narrow_scene\<lparr>selected_rack_ids := [''n1'']\<rparr>"

definition narrow_connect_scene :: planner where
  "narrow_connect_scene = narrow_scene\<lparr>connecting_tubes_mode := True\<rparr>"

text \<open>Whether a world point lies within distance \<open>rad\<close> of the centre of a tube entry.\<close>

definition within_radius :: "real \<Rightarrow> real \<Rightarrow> tube_point \<Rightarrow> real \<Rightarrow> bool" where
  "within_radius wx wy tp rad =
     ((wx - fst (tube_center tp))\<^sup>2 + (wy - snd (tube_center tp))\<^sup>2 \<le> rad\<^sup>2)"

subsection \<open>Evaluation lemmas for the geometry kernel\<close>

lemma rotate_point_0: "rotate_point x y 0 cx cy = (x, y)"
  by (simp add: rotate_point_def radians_def)

lemma scenario_crate_dims: "unrotated_rack_dims scenario_crate = (78, 54)"
  by (simp add: unrotated_rack_dims_def tube_group_dims_def scenario_crate_def
      DEFAULT_TUBE_SPACING_RATIO_def RACK_OUTER_PADDING_def)

lemma scenario_crate_tube0:
  "to_world scenario_crate (crate_local_center scenario_crate 0 0) = (26, 38)"
  by (simp add: to_world_def center_local_def scenario_crate_dims crate_local_center_def
      rotate_point_0 DEFAULT_TUBE_SPACING_RATIO_def RACK_OUTER_PADDING_def)
    (simp add: scenario_crate_def rotate_point_0)

subsection \<open>The tube loops in closed form\<close>

lemma emit_tube_eq: "emit_tube r local (acc, k) = (acc @ [mk_point r k local], Suc k)"
  by (simp add: emit_tube_def mk_point_def split: prod.splits)

lemma inner_loop:
  "foldl (\<lambda>st b. emit_tube r (f b) st) (acc, k) [0..<m] =
     (acc @ map (\<lambda>b. mk_point r (k + b) (f b)) [0..<m], k + m)"
  by (induction m) (simp_all add: emit_tube_eq)

lemma outer_loop:
  "foldl (\<lambda>st a. foldl (\<lambda>st b. emit_tube r (f a b) st) st [0..<m]) (acc, k) [0..<n] =
     (acc @ concat (map (\<lambda>a. map (\<lambda>b. mk_point r (k + a * m + b) (f a b)) [0..<m]) [0..<n]),
      k + n * m)"
  by (induction n) (simp_all add: inner_loop add.assoc)

lemma length_grid:
  "length (concat (map (\<lambda>a. map (g a) [0..<m]) [0..<n])) = n * m"
  by (induction n) simp_all

lemma nth_grid:
  "i < n * m \<Longrightarrow> concat (map (\<lambda>a. map (g a) [0..<m]) [0..<n]) ! i = g (i div m) (i mod m)"
proof (induction n)
  case 0
  then show ?case by simp
next
  case (Suc n)
  show ?case
  proof (cases "i < n * m")
    case True
    then show ?thesis using Suc.IH by (simp add: nth_append length_grid)
  next
    case False
    with Suc.prems have m: "0 < m" and lo: "n * m \<le> i" and hi: "i < n * m + m"
      by (auto intro: Nat.gr0I)
    have d: "i div m = n" using lo hi m
      by (metis div_nat_eqI mult.commute mult_Suc_right add.commute)
    have "i mod m = i - n * m" using d by (metis minus_div_mult_eq_mod)
    then show ?thesis using False d hi m by (simp add: nth_append length_grid)
  qed
qed

lemma crate_points:
  "rtype r = ''Crate'' \<Longrightarrow> tube_center_points r =
     concat (map (\<lambda>a. map (\<lambda>b. mk_point r (a * nat (x_tubes r) + b) (crate_local_center r b a))
        [0..<nat (x_tubes r)]) [0..<nat (y_tubes r)])"
  by (simp add: tube_center_points_def range_py_def outer_loop Let_def)

lemma fan_points:
  "rtype r = ''Fan'' \<Longrightarrow> tube_center_points r =
     concat (map (\<lambda>a. map (\<lambda>b. mk_point r (a * nat (y_tubes r) + b) (fan_local_center r a b))
        [0..<nat (y_tubes r)]) [0..<nat (x_tubes r)])"
  by (simp add: tube_center_points_def range_py_def outer_loop Let_def)

lemma crate_nth:
  assumes "rtype r = ''Crate''" "i < nat (y_tubes r) * nat (x_tubes r)"
  shows "tube_center_points r ! i =
     mk_point r i (crate_local_center r (i mod nat (x_tubes r)) (i div nat (x_tubes r)))"
  using assms by (simp add: crate_points nth_grid)

lemma fan_nth:
  assumes "rtype r = ''Fan''" "i < nat (x_tubes r) * nat (y_tubes r)"
  shows "tube_center_points r ! i =
     mk_point r i (fan_local_center r (i div nat (y_tubes r)) (i mod nat (y_tubes r)))"
  using assms by (simp add: fan_points nth_grid)

lemma map_fst_grid:
  "map fst (concat (map (\<lambda>a. map (\<lambda>b. mk_point r (a * m + b) (f a b)) [0..<m]) [0..<n])) =
     [0..<n * m]"
  by (rule nth_equalityI) (simp_all add: length_grid nth_grid mk_point_def)

lemma tube_indices:
  "map fst (tube_center_points r) =
     (if rtype r = ''Crate'' \<or> rtype r = ''Fan''
      then [0..<nat (x_tubes r) * nat (y_tubes r)] else [])"
proof -
  consider (crate) "rtype r = ''Crate''" | (fan) "rtype r = ''Fan''"
    | (other) "rtype r \<noteq> ''Crate''" "rtype r \<noteq> ''Fan''"
    by blast
  then show ?thesis
  proof cases
    case crate
    then show ?thesis by (simp add: crate_points map_fst_grid mult.commute)
  next
    case fan
    then show ?thesis by (simp add: fan_points map_fst_grid)
  next
    case other
    then show ?thesis by (simp add: tube_center_points_def)
  qed
qed

subsection \<open>The scenario rack: centre of tube 0\<close>

lemma scenario_crate_point0:
  "tube_center_points scenario_crate ! 0 = (0, 26, 38, 20)"
proof -
  have "tube_center_points scenario_crate ! 0 =
      mk_point scenario_crate 0 (crate_local_center scenario_crate 0 0)"
    using crate_nth [of scenario_crate 0] by (simp add: scenario_crate_def)
  then show ?thesis
    by (simp add: mk_point_def scenario_crate_tube0 effective_tube_diameter_def)
      (simp add: scenario_crate_def)
qed

text \<open>
  C1, as stated: for the Crate rack with 3 columns, 2 rows and diameter 20 at position
  (50, 50), unrotated, the world centre of tube 0 is (65, 65). The kernel does not return
  that point.
\<close>

theorem C1_tube0_center_is_not_65_65:
  "tube_center (fst (get_rack_dimensions_and_points scenario_crate) ! 0) \<noteq> (65, 65)"
  by (simp add: get_rack_dimensions_and_points_def scenario_crate_point0 tube_center_def)

text \<open>
  C1, amended: the position of a rack is the world position of the centre of its unrotated
  rectangle (78 by 54 here, local centre (39, 27)), so tube 0, whose local centre is
  (5 + 10, 5 + 10) = (15, 15), has the world centre (50 - 39 + 15, 50 - 27 + 15) = (26, 38).
\<close>

theorem C1_tube0_center:
  "tube_center (fst (get_rack_dimensions_and_points scenario_crate) ! 0) = (26, 38)"
  by (simp add: get_rack_dimensions_and_points_def scenario_crate_point0 tube_center_def)

subsection \<open>Tube indexing\<close>

lemma scenario_fan_dims: "unrotated_rack_dims scenario_fan = (76, 86)"
  by (simp add: unrotated_rack_dims_def tube_group_dims_def scenario_fan_def
      DEFAULT_TUBE_SPACING_RATIO_def RACK_OUTER_PADDING_def DEFAULT_FAN_PADDING_RATIO_def
      DEFAULT_INTER_FAN_SPACING_RATIO_def)

lemma scenario_fan_world:
  "to_world scenario_fan (fan_local_center scenario_fan f t) =
     (-19 + 38 * real f, -24 + 24 * real t)"
  by (simp add: to_world_def center_local_def scenario_fan_dims fan_local_center_def
      DEFAULT_TUBE_SPACING_RATIO_def RACK_OUTER_PADDING_def DEFAULT_FAN_PADDING_RATIO_def
      DEFAULT_INTER_FAN_SPACING_RATIO_def)
    (simp add: scenario_fan_def rotate_point_0)

lemma scenario_fan_point1:
  "tube_center_points scenario_fan ! 1 = (1, -19, 0, 20)"
proof -
  have "tube_center_points scenario_fan ! 1 =
      mk_point scenario_fan 1 (fan_local_center scenario_fan 0 1)"
    using fan_nth [of scenario_fan 1] by (simp add: scenario_fan_def)
  then show ?thesis
    by (simp add: mk_point_def scenario_fan_world effective_tube_diameter_def)
      (simp add: scenario_fan_def)
qed

text \<open>
  C2, as stated: for Crate and Fan racks alike, tube \<open>i\<close> sits in unrotated column
  \<open>i mod cols\<close> and row \<open>i div cols\<close>. For the Fan rack with 2 segments of 3 tubes, tube 1
  is the second tube of segment 0, at (-19, 0); segment \<open>1 mod 2\<close>, tube \<open>1 div 2\<close> is at
  (19, -24).
\<close>

theorem C2_fan_is_not_row_major:
  "tube_center (tube_center_points scenario_fan ! 1) = (-19, 0)
   \<and> tube_center (mk_point scenario_fan 1
        (fan_local_center scenario_fan (1 mod nat (x_tubes scenario_fan))
           (1 div nat (x_tubes scenario_fan)))) = (19, -24)
   \<and> tube_center_points scenario_fan ! 1 \<noteq>
       mk_point scenario_fan 1
        (fan_local_center scenario_fan (1 mod nat (x_tubes scenario_fan))
           (1 div nat (x_tubes scenario_fan)))"
proof -
  have x: "nat (x_tubes scenario_fan) = 2" by (simp add: scenario_fan_def)
  show ?thesis
    using scenario_fan_point1
    by (simp add: x tube_center_def mk_point_def scenario_fan_world)
qed

text \<open>
  C2, amended: for every rack with positive \<open>cols\<close> and \<open>rows\<close>, the indices of the
  kernel's tube list do not depend on the rotation angle and, for Crate and Fan racks, are
  \<open>0, \<dots>, cols * rows - 1\<close> in this order. For a Crate, tube \<open>i\<close> is the tube of unrotated
  column \<open>i mod cols\<close> and row \<open>i div cols\<close> (row-major). For a Fan, tube \<open>i\<close> is tube
  \<open>i mod rows\<close> of segment \<open>i div rows\<close> (segment by segment).
\<close>

theorem C2_indexing:
  assumes "0 < x_tubes r" and "0 < y_tubes r"
  shows "map fst (tube_center_points (r\<lparr>rotation_angle := a\<rparr>)) = map fst (tube_center_points r)
     \<and> (rtype r = ''Crate'' \<or> rtype r = ''Fan'' \<longrightarrow>
          map fst (tube_center_points r) = [0..<nat (x_tubes r * y_tubes r)])
     \<and> (rtype r = ''Crate'' \<and> i < nat (x_tubes r * y_tubes r) \<longrightarrow>
          tube_center_points r ! i =
            mk_point r i (crate_local_center r (i mod nat (x_tubes r)) (i div nat (x_tubes r))))
     \<and> (rtype r = ''Fan'' \<and> i < nat (x_tubes r * y_tubes r) \<longrightarrow>
          tube_center_points r ! i =
            mk_point r i (fan_local_center r (i div nat (y_tubes r)) (i mod nat (y_tubes r))))"
proof -
  have n: "nat (x_tubes r * y_tubes r) = nat (x_tubes r) * nat (y_tubes r)"
    using assms by (simp add: nat_mult_distrib)
  show ?thesis
    using crate_nth [of r i] fan_nth [of r i]
    by (simp add: tube_indices n mult.commute)
qed

theorem C2_indexing_witness:
  "0 < x_tubes scenario_fan \<and> 0 < y_tubes scenario_fan
   \<and> tube_center_points scenario_fan ! 4 =
       mk_point scenario_fan 4 (fan_local_center scenario_fan 1 1)
   \<and> map fst (tube_center_points (scenario_fan\<lparr>rotation_angle := 90\<rparr>)) = [0..<6]
   \<and> 0 < x_tubes scenario_crate \<and> 0 < y_tubes scenario_crate
   \<and> tube_center_points scenario_crate ! 4 =
       mk_point scenario_crate 4 (crate_local_center scenario_crate 1 1)"
  using C2_indexing [of scenario_fan 90 4] C2_indexing [of scenario_crate 90 4]
  by (simp add: scenario_fan_def scenario_crate_def)

subsection \<open>Taking a snapshot\<close>

lemma record_fields:
  "racks_on_canvas (record_state_for_undo s) = racks_on_canvas s"
  "tube_connections (record_state_for_undo s) = tube_connections s"
  "selected_rack_ids (record_state_for_undo s) = selected_rack_ids s"
  "selected_flow_line_id (record_state_for_undo s) = selected_flow_line_id s"
  "flow_lines_on_canvas (record_state_for_undo s) = flow_lines_on_canvas s"
  "dragging_rack_id (record_state_for_undo s) = dragging_rack_id s"
  by (simp_all add: record_state_for_undo_def push_to_undo_stack_def Let_def)

lemma record_top:
  "last (undo_stack (record_state_for_undo s)) = capture_current_state s"
  by (cases "undo_stack s")
    (simp_all add: record_state_for_undo_def push_to_undo_stack_def Let_def MAX_UNDO_STEPS_def)

subsection \<open>Effective tube diameter and the hit test\<close>

lemma tube_points_diameter:
  "tp \<in> set (tube_center_points r) \<Longrightarrow> point_diameter tp = max (tube_diameter r) 10"
proof -
  assume a: "tp \<in> set (tube_center_points r)"
  consider (crate) "rtype r = ''Crate''" | (fan) "rtype r = ''Fan''"
    | (other) "rtype r \<noteq> ''Crate''" "rtype r \<noteq> ''Fan''"
    by blast
  then show ?thesis
  proof cases
    case crate
    then show ?thesis using a
      by (auto simp: crate_points mk_point_def point_diameter_def effective_tube_diameter_def)
  next
    case fan
    then show ?thesis using a
      by (auto simp: fan_points mk_point_def point_diameter_def effective_tube_diameter_def)
  next
    case other
    then show ?thesis using a by (simp add: tube_center_points_def)
  qed
qed


lemma tube_hit_radius:
  "tp \<in> set (tube_center_points r) \<Longrightarrow>
     tube_hit wx wy tp = within_radius wx wy tp (max (tube_diameter r) 10 / 2)"
  using tube_points_diameter [of tp r]
  by (cases tp) (simp add: tube_hit_def within_radius_def tube_center_def point_diameter_def)

lemma find_Some_in_set: "find P xs = Some x \<Longrightarrow> x \<in> set xs \<and> P x"
  by (induction xs) (auto split: if_splits)

lemma first_tube_hit_None:
  "first_tube_hit wx wy rs = None \<longleftrightarrow>
     (\<forall>r \<in> set rs. \<forall>tp \<in> set (tube_center_points r). \<not> tube_hit wx wy tp)"
  by (induction rs) (auto simp: find_None_iff split: option.splits dest: find_Some_in_set)

lemma first_tube_hit_Some:
  "first_tube_hit wx wy rs = Some (i, k) \<Longrightarrow>
     \<exists>r \<in> set rs. rid r = i \<and> (\<exists>tp \<in> set (tube_center_points r). fst tp = k \<and> tube_hit wx wy tp)"
  by (induction rs) (auto split: option.splits dest: find_Some_in_set)

lemma narrow_crate_points: "tube_center_points narrow_crate = [(0, 0, 0, 10)]"
proof -
  have d: "unrotated_rack_dims narrow_crate = (14, 14)"
    by (simp add: unrotated_rack_dims_def tube_group_dims_def narrow_crate_def
      DEFAULT_TUBE_SPACING_RATIO_def RACK_OUTER_PADDING_def)
  have w: "to_world narrow_crate (crate_local_center narrow_crate 0 0) = (0, 0)"
    by (simp add: to_world_def center_local_def d crate_local_center_def
      DEFAULT_TUBE_SPACING_RATIO_def RACK_OUTER_PADDING_def)
     (simp add: narrow_crate_def rotate_point_0)
  have "tube_center_points narrow_crate =
      [mk_point narrow_crate 0 (crate_local_center narrow_crate 0 0)]"
    by (simp add: crate_points narrow_crate_def)
  then show ?thesis
    by (simp add: mk_point_def w effective_tube_diameter_def) (simp add: narrow_crate_def)
qed

lemma cycle_color_changes: "\<exists>v. cycle_color c = Inr v \<and> v \<noteq> c"
  by (auto simp: cycle_color_def FUSE_COLORS_MAP_def FUSE_COLOR_CHOICES_def)

lemma update_first_changes:
  "find P xs = Some x \<Longrightarrow> f x \<noteq> x \<Longrightarrow> update_first P f xs \<noteq> xs"
  by (induction xs) (auto split: if_splits)

lemma find_hit_None:
  "find (\<lambda>tp. tube_hit wx wy tp \<and> fst tp < n) (tube_center_points rc) = None \<longleftrightarrow>
     \<not> (\<exists>tp \<in> set (tube_center_points rc).
           within_radius wx wy tp (max (tube_diameter rc) 10 / 2) \<and> fst tp < n)"
  unfolding find_None_iff using tube_hit_radius [of _ rc wx wy] by blast

lemma shift_click_hit:
  assumes m: "\<not> drawing_flow_line_mode s" "\<not> connecting_tubes_mode s"
    and sel: "selected_rack_ids s = [sid]"
    and rc: "find (\<lambda>r. rid r = sid) (racks_on_canvas s) = Some rc"
    and w: "canvas_to_world s cx cy = Inr (wx, wy)"
  shows "on_canvas_shift_click s cx cy \<noteq> Inr s \<longleftrightarrow>
     (\<exists>tp \<in> set (tube_center_points rc).
        within_radius wx wy tp (max (tube_diameter rc) 10 / 2) \<and> fst tp < length (tubes rc))"
proof (cases "find (\<lambda>tp. tube_hit wx wy tp \<and> fst tp < length (tubes rc)) (tube_center_points rc)")
  case None
  then have "on_canvas_shift_click s cx cy = Inr s"
    using m sel rc w by (simp add: on_canvas_shift_click_def)
  then show ?thesis using None by (simp add: find_hit_None)
next
  case (Some tp)
  then have tp: "tp \<in> set (tube_center_points rc)" "tube_hit wx wy tp" "fst tp < length (tubes rc)"
    using find_Some_in_set [OF Some] by auto
  obtain v where v: "cycle_color (color (tubes rc ! fst tp)) = Inr v" "v \<noteq> color (tubes rc ! fst tp)"
    using cycle_color_changes by blast
  let ?f = "\<lambda>r. r\<lparr>tubes := (tubes r)[fst tp := (tubes r ! fst tp)\<lparr>color := v\<rparr>]\<rparr>"
  have "color (tubes (?f rc) ! fst tp) = v" using tp(3) by simp
  then have ne: "?f rc \<noteq> rc" using v(2) by metis
  have res: "on_canvas_shift_click s cx cy =
      Inr (record_state_for_undo (s\<lparr>racks_on_canvas :=
             update_first (\<lambda>r. rid r = sid) ?f (racks_on_canvas s)\<rparr>))"
    using m sel rc w Some v(1) by (simp add: on_canvas_shift_click_def Let_def)
  have "racks_on_canvas (record_state_for_undo (s\<lparr>racks_on_canvas :=
             update_first (\<lambda>r. rid r = sid) ?f (racks_on_canvas s)\<rparr>)) \<noteq> racks_on_canvas s"
    using update_first_changes [where f = ?f, OF rc ne] by (simp add: record_fields)
  then have "on_canvas_shift_click s cx cy \<noteq> Inr s" using res by auto
  moreover have "\<exists>tp \<in> set (tube_center_points rc).
        within_radius wx wy tp (max (tube_diameter rc) 10 / 2) \<and> fst tp < length (tubes rc)"
    using tp tube_hit_radius [of tp rc wx wy] by blast
  ultimately show ?thesis by blast
qed

lemma connect_click_hit:
  assumes c: "connecting_tubes_mode s" and f: "first_tube_for_connection s = None"
    and w: "canvas_to_world s cx cy = Inr (wx, wy)"
  shows "(\<exists>s'. on_canvas_press_connect_tubes_mode s cx cy new_id = Inr s'
             \<and> first_tube_for_connection s' \<noteq> None) \<longleftrightarrow>
     (\<exists>rk \<in> set (racks_on_canvas s). \<exists>tp \<in> set (tube_center_points rk).
        within_radius wx wy tp (max (tube_diameter rk) 10 / 2))"
proof -
  have g: "get_tube_at_canvas_coords s cx cy =
      Inr (first_tube_hit wx wy (rev (racks_on_canvas s)))"
    using w by (simp add: get_tube_at_canvas_coords_def)
  have n: "first_tube_hit wx wy (rev (racks_on_canvas s)) = None \<longleftrightarrow>
     \<not> (\<exists>rk \<in> set (racks_on_canvas s). \<exists>tp \<in> set (tube_center_points rk).
        within_radius wx wy tp (max (tube_diameter rk) 10 / 2))"
    by (auto simp: first_tube_hit_None tube_hit_radius)
  show ?thesis
  proof (cases "first_tube_hit wx wy (rev (racks_on_canvas s))")
    case None
    then show ?thesis using c f g n
      by (simp add: on_canvas_press_connect_tubes_mode_def)
  next
    case (Some a)
    then show ?thesis using c f g n
      by (cases a) (simp add: on_canvas_press_connect_tubes_mode_def)
  qed
qed

lemma narrow_scene_fields:
  "racks_on_canvas narrow_scene = [narrow_crate]"
  "racks_on_canvas narrow_selected_scene = [narrow_crate]"
  "racks_on_canvas narrow_connect_scene = [narrow_crate]"
  "selected_rack_ids narrow_selected_scene = [''n1'']"
  "\<not> drawing_flow_line_mode narrow_selected_scene"
  "\<not> connecting_tubes_mode narrow_selected_scene"
  "connecting_tubes_mode narrow_connect_scene"
  "first_tube_for_connection narrow_connect_scene = None"
  by (simp_all add: narrow_scene_def narrow_selected_scene_def narrow_connect_scene_def
      initial_planner_def)

lemma narrow_scene_world:
  "canvas_to_world narrow_scene x y = Inr (x, y)"
  "canvas_to_world narrow_selected_scene x y = Inr (x, y)"
  "canvas_to_world narrow_connect_scene x y = Inr (x, y)"
  by (simp_all add: canvas_to_world_def narrow_scene_def narrow_selected_scene_def
      narrow_connect_scene_def initial_planner_def)

lemma narrow_crate_fields:
  "rid narrow_crate = ''n1''" "tube_diameter narrow_crate = 4" "length (tubes narrow_crate) = 1"
  by (simp_all add: narrow_crate_def)

text \<open>
  C10, as stated: the hit-test radius of tube click-cycling and tube connection is
  \<open>max tubeDiameter 10\<close>. For the rack with one tube of diameter 4 centred at the origin,
  the point (8, 0) is within distance \<open>max 4 10 = 10\<close> of the tube centre, yet neither
  \<^verbatim>\<open>_get_tube_at_canvas_coords\<close> nor \<^verbatim>\<open>on_canvas_shift_click\<close> hits the tube there.
\<close>

theorem C10_radius_is_not_effective_diameter:
  "fst (get_rack_dimensions_and_points narrow_crate) = [(0, 0, 0, 10)]
   \<and> max (tube_diameter narrow_crate) 10 = 10
   \<and> within_radius 8 0 (0, 0, 0, 10) (max (tube_diameter narrow_crate) 10)
   \<and> get_tube_at_canvas_coords narrow_scene 8 0 = Inr None
   \<and> on_canvas_shift_click narrow_selected_scene 8 0 = Inr narrow_selected_scene"
proof -
  have g: "get_tube_at_canvas_coords narrow_scene 8 0 = Inr None"
    by (simp add: get_tube_at_canvas_coords_def narrow_scene_world narrow_scene_fields
        narrow_crate_points tube_hit_def)
  have c: "on_canvas_shift_click narrow_selected_scene 8 0 = Inr narrow_selected_scene"
    by (simp add: on_canvas_shift_click_def narrow_scene_world narrow_scene_fields
        narrow_crate_fields narrow_crate_points tube_hit_def)
  show ?thesis
    using g c
    by (simp add: get_rack_dimensions_and_points_def narrow_crate_points narrow_crate_fields
        within_radius_def tube_center_def)
qed

text \<open>
  C10, amended: every tube entry of the kernel carries the effective diameter
  \<open>max tubeDiameter 10\<close>, and the hit test accepts exactly the points within the radius
  \<open>max tubeDiameter 10 / 2\<close> of the tube centre. With this radius,
  \<^verbatim>\<open>_get_tube_at_canvas_coords\<close> finds a tube exactly when the world point under the
  cursor is within the radius of some tube of some rack; a shift-click on the single
  selected rack changes the state (recolours a tube) exactly when the point is within the
  radius of one of the rack's tubes whose index is within its tube list; and in
  tube-connection mode with no source chosen, a press chooses a source exactly when the
  point is within the radius of some tube. For a diameter below 10 this radius is strictly
  larger than the radius of the configured tube.
\<close>

theorem C10_effective_diameter:
  "(\<forall>tp \<in> set (fst (get_rack_dimensions_and_points r)).
       point_diameter tp = max (tube_diameter r) 10
       \<and> tube_hit wx wy tp = within_radius wx wy tp (max (tube_diameter r) 10 / 2))
   \<and> (tube_diameter r < 10 \<longrightarrow> tube_diameter r / 2 < max (tube_diameter r) 10 / 2)
   \<and> (canvas_to_world s cx cy = Inr (wx, wy) \<longrightarrow>
        (get_tube_at_canvas_coords s cx cy \<noteq> Inr None \<longleftrightarrow>
           (\<exists>rk \<in> set (racks_on_canvas s). \<exists>tp \<in> set (tube_center_points rk).
              within_radius wx wy tp (max (tube_diameter rk) 10 / 2))))
   \<and> (\<not> drawing_flow_line_mode s \<and> \<not> connecting_tubes_mode s
        \<and> selected_rack_ids s = [sid]
        \<and> find (\<lambda>rk. rid rk = sid) (racks_on_canvas s) = Some rc
        \<and> canvas_to_world s cx cy = Inr (wx, wy) \<longrightarrow>
        (on_canvas_shift_click s cx cy \<noteq> Inr s \<longleftrightarrow>
           (\<exists>tp \<in> set (tube_center_points rc).
              within_radius wx wy tp (max (tube_diameter rc) 10 / 2)
              \<and> fst tp < length (tubes rc))))
   \<and> (connecting_tubes_mode s \<and> first_tube_for_connection s = None
        \<and> canvas_to_world s cx cy = Inr (wx, wy) \<longrightarrow>
        ((\<exists>s'. on_canvas_press_connect_tubes_mode s cx cy new_id = Inr s'
               \<and> first_tube_for_connection s' \<noteq> None) \<longleftrightarrow>
           (\<exists>rk \<in> set (racks_on_canvas s). \<exists>tp \<in> set (tube_center_points rk).
              within_radius wx wy tp (max (tube_diameter rk) 10 / 2))))"
proof -
  have a: "\<forall>tp \<in> set (fst (get_rack_dimensions_and_points r)).
       point_diameter tp = max (tube_diameter r) 10
       \<and> tube_hit wx wy tp = within_radius wx wy tp (max (tube_diameter r) 10 / 2)"
    by (simp add: get_rack_dimensions_and_points_def tube_points_diameter tube_hit_radius)
  have b: "tube_diameter r < 10 \<longrightarrow> tube_diameter r / 2 < max (tube_diameter r) 10 / 2"
    by simp
  have c: "canvas_to_world s cx cy = Inr (wx, wy) \<longrightarrow>
        (get_tube_at_canvas_coords s cx cy \<noteq> Inr None \<longleftrightarrow>
           (\<exists>rk \<in> set (racks_on_canvas s). \<exists>tp \<in> set (tube_center_points rk).
              within_radius wx wy tp (max (tube_diameter rk) 10 / 2)))"
    by (auto simp: get_tube_at_canvas_coords_def first_tube_hit_None tube_hit_radius)
  have d: "\<not> drawing_flow_line_mode s \<and> \<not> connecting_tubes_mode s
        \<and> selected_rack_ids s = [sid]
        \<and> find (\<lambda>rk. rid rk = sid) (racks_on_canvas s) = Some rc
        \<and> canvas_to_world s cx cy = Inr (wx, wy) \<longrightarrow>
        (on_canvas_shift_click s cx cy \<noteq> Inr s \<longleftrightarrow>
           (\<exists>tp \<in> set (tube_center_points rc).
              within_radius wx wy tp (max (tube_diameter rc) 10 / 2)
              \<and> fst tp < length (tubes rc)))"
    using shift_click_hit [of s sid rc cx cy wx wy] by blast
  have e: "connecting_tubes_mode s \<and> first_tube_for_connection s = None
        \<and> canvas_to_world s cx cy = Inr (wx, wy) \<longrightarrow>
        ((\<exists>s'. on_canvas_press_connect_tubes_mode s cx cy new_id = Inr s'
               \<and> first_tube_for_connection s' \<noteq> None) \<longleftrightarrow>
           (\<exists>rk \<in> set (racks_on_canvas s). \<exists>tp \<in> set (tube_center_points rk).
              within_radius wx wy tp (max (tube_diameter rk) 10 / 2)))"
    using connect_click_hit [of s cx cy wx wy new_id] by blast
  show ?thesis
    apply (intro conjI)
        apply (rule a)
       apply (rule b)
      apply (rule c)
     apply (rule d)
    apply (rule e)
    done
qed

theorem C10_effective_diameter_witness:
  "tube_diameter narrow_crate = 4
   \<and> fst (get_rack_dimensions_and_points narrow_crate) = [(0, 0, 0, 10)]
   \<and> tube_hit 4 0 (0, 0, 0, 10)
   \<and> \<not> within_radius 4 0 (0, 0, 0, 10) (tube_diameter narrow_crate / 2)
   \<and> get_tube_at_canvas_coords narrow_scene 4 0 \<noteq> Inr None
   \<and> on_canvas_shift_click narrow_selected_scene 4 0 \<noteq> Inr narrow_selected_scene
   \<and> (\<exists>s'. on_canvas_press_connect_tubes_mode narrow_connect_scene 4 0 ''k9'' = Inr s'
          \<and> first_tube_for_connection s' \<noteq> None)"
proof -
  have g: "fst (get_rack_dimensions_and_points narrow_crate) = [(0, 0, 0, 10)]"
    by (simp add: get_rack_dimensions_and_points_def narrow_crate_points)
  have f: "find (\<lambda>rk. rid rk = ''n1'') [narrow_crate] = Some narrow_crate"
    by (simp add: narrow_crate_fields)
  have h: "within_radius 4 0 (0, 0, 0, 10) (max (tube_diameter narrow_crate) 10 / 2)"
    by (simp add: within_radius_def tube_center_def narrow_crate_fields)
  have n: "\<not> within_radius 4 0 (0, 0, 0, 10) (tube_diameter narrow_crate / 2)"
    by (simp add: within_radius_def tube_center_def narrow_crate_fields)
  have p1: "tube_hit 4 0 (0, 0, 0, 10)
      \<and> get_tube_at_canvas_coords narrow_scene 4 0 \<noteq> Inr None"
    using C10_effective_diameter [of narrow_crate 4 0 narrow_scene 4 0 "''n1''" narrow_crate "''k9''"] h
    by (simp add: g narrow_scene_world narrow_scene_fields narrow_crate_points)
  have p2: "on_canvas_shift_click narrow_selected_scene 4 0 \<noteq> Inr narrow_selected_scene"
    using C10_effective_diameter [of narrow_crate 4 0 narrow_selected_scene 4 0 "''n1''"
        narrow_crate "''k9''"] h f
    by (simp add: narrow_scene_world narrow_scene_fields narrow_crate_points
        narrow_crate_fields)
  have p3: "\<exists>s'. on_canvas_press_connect_tubes_mode narrow_connect_scene 4 0 ''k9'' = Inr s'
          \<and> first_tube_for_connection s' \<noteq> None"
    using C10_effective_diameter [of narrow_crate 4 0 narrow_connect_scene 4 0 "''n1''"
        narrow_crate "''k9''"] h
    by (simp add: narrow_scene_world narrow_scene_fields narrow_crate_points)
  show ?thesis using g n p1 p2 p3 by (simp add: narrow_crate_fields)
qed

subsection \<open>History: undo followed by redo\<close>

lemma capture_restore:
  "capture_current_state (restore_state_from_history s h) = h"
  by (simp add: capture_current_state_def restore_state_from_history_def)

lemma restore_stacks:
  "undo_stack (restore_state_from_history s h) = undo_stack s"
  "redo_stack (restore_state_from_history s h) = redo_stack s"
  by (simp_all add: restore_state_from_history_def)

lemma undo_action_fields:
  assumes "undo_stack s \<noteq> []"
  shows "capture_current_state (undo_action s) = last (undo_stack s)"
    and "undo_stack (undo_action s) = butlast (undo_stack s)"
    and "redo_stack (undo_action s) = redo_stack s @ [capture_current_state s]"
  using assms by (simp_all add: undo_action_def Let_def capture_restore restore_stacks)

lemma redo_action_fields:
  assumes "redo_stack s \<noteq> []"
  shows "capture_current_state (redo_action s) = last (redo_stack s)"
    and "redo_stack (redo_action s) = butlast (redo_stack s)"
    and "undo_stack (redo_action s) = undo_stack s @ [capture_current_state s]"
  using assms by (simp_all add: redo_action_def Let_def capture_restore restore_stacks)

lemma rotate_scenario:
  "rotate_selected_racks_action scenario_scene =
     scenario_scene\<lparr>undo_stack := [capture_current_state scenario_scene],
       racks_on_canvas := [scenario_crate\<lparr>rotation_angle := 90\<rparr>]\<rparr>"
  by (simp add: rotate_selected_racks_action_def scenario_scene_def initial_planner_def
      truthy_id_def record_state_for_undo_def push_to_undo_stack_def Let_def
      MAX_UNDO_STEPS_def next_rotation_def ROTATION_DEGREES_def scenario_crate_def)

text \<open>
  C5: in any state with a non-empty undo stack, undo followed by redo restores the racks,
  flow lines, tube connections, selection and view (zoom and pan) that were live before
  the undo; the undo and redo stacks are restored as well.
\<close>

theorem C5_undo_redo:
  assumes "undo_stack s \<noteq> []"
  shows "capture_current_state (redo_action (undo_action s)) = capture_current_state s
     \<and> undo_stack (redo_action (undo_action s)) = undo_stack s
     \<and> redo_stack (redo_action (undo_action s)) = redo_stack s"
proof -
  have r: "redo_stack (undo_action s) \<noteq> []"
    using undo_action_fields(3) [OF assms] by simp
  show ?thesis
    using assms
    by (simp add: redo_action_fields [OF r] undo_action_fields [OF assms])
qed

theorem C5_undo_redo_witness:
  "undo_stack (rotate_selected_racks_action scenario_scene) \<noteq> []
   \<and> racks_on_canvas (rotate_selected_racks_action scenario_scene) =
       [scenario_crate\<lparr>rotation_angle := 90\<rparr>]
   \<and> racks_on_canvas (undo_action (rotate_selected_racks_action scenario_scene)) =
       [scenario_crate]
   \<and> capture_current_state
        (redo_action (undo_action (rotate_selected_racks_action scenario_scene))) =
       capture_current_state (rotate_selected_racks_action scenario_scene)"
proof -
  have u: "racks_on_canvas (undo_action (rotate_selected_racks_action scenario_scene)) =
       [scenario_crate]"
    by (simp add: rotate_scenario undo_action_def Let_def restore_state_from_history_def
        capture_current_state_def)
      (simp add: scenario_scene_def)
  show ?thesis
    using C5_undo_redo [of "rotate_selected_racks_action scenario_scene"] u
    by (simp add: rotate_scenario)
qed

subsection \<open>Deleting racks\<close>

text \<open>
  C9: in any scene state (one that satisfies the selection invariant of the data model),
  the confirmed delete removes exactly the selected racks from the rack collection, and
  removes exactly the tube connections whose source or target rack id is selected,
  keeping every other connection in place and in order.
\<close>

theorem C9_delete:
  assumes "selection_exclusive s"
  shows "racks_on_canvas (delete_selected_item s True) =
           filter (\<lambda>r. rid r \<notin> set (selected_rack_ids s)) (racks_on_canvas s)
     \<and> tube_connections (delete_selected_item s True) =
           filter (\<lambda>c. source_rack_id c \<notin> set (selected_rack_ids s)
                       \<and> target_rack_id c \<notin> set (selected_rack_ids s))
             (tube_connections s)"
  using assms
  by (auto simp: delete_selected_item_def selection_exclusive_def truthy_id_def Let_def
      record_fields split: option.splits)

theorem C9_delete_witness:
  "selection_exclusive connected_scene
   \<and> racks_on_canvas (delete_selected_item connected_scene True) = [scenario_fan]
   \<and> tube_connections (delete_selected_item connected_scene True) = [conn_fan_fan]"
proof -
  have e: "selection_exclusive connected_scene"
    by (simp add: selection_exclusive_def connected_scene_def initial_planner_def)
  show ?thesis
    using C9_delete [OF e] e
    by (simp add: connected_scene_def scenario_crate_def scenario_fan_def
        conn_crate_fan_def conn_fan_fan_def conn_crate_crate_def)
qed

subsection \<open>Fuse length per colour\<close>

lemma tube_loop:
  "foldl (\<lambda>m t. m(color t := m (color t) + p)) m ts c =
     m c + of_nat (length (filter (\<lambda>t. color t = c) ts)) * p"
  by (induction ts arbitrary: m) (simp_all add: algebra_simps)

lemma summary_step_snd:
  "snd (summary_step (n, m) r) c = m c + rack_contribution r c"
  by (simp add: summary_step_def rack_contribution_def Let_def tube_loop)

lemma summary_loop:
  "snd (foldl summary_step st rs) c = snd st c + (\<Sum>r\<leftarrow>rs. rack_contribution r c)"
proof (induction rs arbitrary: st)
  case Nil
  show ?case by simp
next
  case (Cons r rs)
  obtain n m where st: "st = (n, m)" by (cases st)
  show ?case
    using summary_step_snd [of n m r c] by (simp add: Cons.IH st)
qed

lemma fuse_lengths_sum:
  "fuse_lengths_by_color_value racks c = (\<Sum>r\<leftarrow>racks. rack_contribution r c)"
  by (simp add: fuse_lengths_by_color_value_def summary_totals_def summary_loop)

lemma crate_total_pos:
  "rtype r = ''Crate'' \<Longrightarrow> 0 < x_tubes r * y_tubes r \<Longrightarrow> 0 < rack_total_fuse_length_inches r"
  by (simp add: rack_total_fuse_length_inches_def DEFAULT_CRATE_FUSE_INCHES_def
      del: of_int_mult)

lemma fan_total_pos:
  "rtype r = ''Fan'' \<Longrightarrow> 0 < x_tubes r \<Longrightarrow> 0 < y_tubes r \<Longrightarrow> 0 < rack_total_fuse_length_inches r"
  by (simp add: rack_total_fuse_length_inches_def FAN_CHAIN_LEAD_INCHES_def
     FAN_CHAIN_TAIL_INCHES_def FAN_CHAIN_INTER_TUBE_ALLOWANCE_INCHES_def
     FAN_CHAIN_INTER_SEGMENT_ALLOWANCE_INCHES_def add_pos_nonneg)

lemma crate_5x5_total: "rack_total_fuse_length_inches crate_5x5 = 70"
  by (simp add: rack_total_fuse_length_inches_def crate_5x5_def DEFAULT_CRATE_FUSE_INCHES_def)

lemma crate_5x5_pink: "fuse_lengths_by_color_value [crate_5x5] ''pink'' = 63"
  by (simp add: fuse_lengths_sum rack_contribution_def crate_5x5_total
      fuse_per_tube_in_rack_inches_def FUSE_LENGTH_SCALE_FACTOR_def)
    (simp add: crate_5x5_def pink_tube_def)

text \<open>
  C4, as stated: every tube adds the rack's closed-form total divided by the rack's tube
  count to the running total of its colour. For one Crate rack of 5 by 5 pink tubes the
  closed-form total is 70, so the pink total would be 25 * (70 / 25) = 70; the code
  computes 63.
\<close>

theorem C4_scale_factor_counterexample:
  "fuse_lengths_by_color_value [crate_5x5] ''pink'' = 63
   \<and> of_nat (length (filter (\<lambda>t. color t = ''pink'') (tubes crate_5x5)))
        * (rack_total_fuse_length_inches crate_5x5
             / of_int (x_tubes crate_5x5 * y_tubes crate_5x5)) = (70 :: real)
   \<and> fuse_lengths_by_color_value [crate_5x5] ''pink'' \<noteq>
       of_nat (length (filter (\<lambda>t. color t = ''pink'') (tubes crate_5x5)))
        * (rack_total_fuse_length_inches crate_5x5
             / of_int (x_tubes crate_5x5 * y_tubes crate_5x5))"
  by (simp add: crate_5x5_pink crate_5x5_total) (simp add: crate_5x5_def pink_tube_def)

text \<open>
  C4, amended: the running total of a colour is the sum, over the racks with a positive
  tube count and a positive closed-form total, of the number of the rack's tubes of that
  colour times the rack's closed-form total, scaled by \<open>FUSE_LENGTH_SCALE_FACTOR = 0.9\<close>
  and divided by the rack's tube count \<open>cols * rows\<close>. The closed-form total of a Crate is
  the base fuse length times \<open>cols * rows / 25\<close>; that of a Fan with positive \<open>cols\<close> and
  \<open>rows\<close> is lead + \<open>cols * (rows - 1)\<close> intra-tube allowances + \<open>cols - 1\<close>
  inter-segment allowances + tail.
\<close>

theorem C4_fuse_totals:
  "fuse_lengths_by_color_value racks c = (\<Sum>r\<leftarrow>racks. rack_contribution r c)
   \<and> (rtype r = ''Crate'' \<and> 0 < x_tubes r * y_tubes r \<longrightarrow>
        rack_contribution r c =
          of_nat (length (filter (\<lambda>t. color t = c) (tubes r)))
            * (DEFAULT_CRATE_FUSE_INCHES * (of_int (x_tubes r * y_tubes r) / 25)
                 * FUSE_LENGTH_SCALE_FACTOR / of_int (x_tubes r * y_tubes r)))
   \<and> (rtype r = ''Fan'' \<and> 0 < x_tubes r \<and> 0 < y_tubes r \<longrightarrow>
        rack_contribution r c =
          of_nat (length (filter (\<lambda>t. color t = c) (tubes r)))
            * ((FAN_CHAIN_LEAD_INCHES
                  + of_int (x_tubes r * (y_tubes r - 1)) * FAN_CHAIN_INTER_TUBE_ALLOWANCE_INCHES
                  + of_int (x_tubes r - 1) * FAN_CHAIN_INTER_SEGMENT_ALLOWANCE_INCHES
                  + FAN_CHAIN_TAIL_INCHES)
                 * FUSE_LENGTH_SCALE_FACTOR / of_int (x_tubes r * y_tubes r)))"
proof -
  have crate: "rtype r = ''Crate'' \<and> 0 < x_tubes r * y_tubes r \<longrightarrow>
        rack_contribution r c =
          of_nat (length (filter (\<lambda>t. color t = c) (tubes r)))
            * (DEFAULT_CRATE_FUSE_INCHES * (of_int (x_tubes r * y_tubes r) / 25)
                 * FUSE_LENGTH_SCALE_FACTOR / of_int (x_tubes r * y_tubes r))"
    using crate_total_pos [of r]
    by (auto simp: rack_contribution_def fuse_per_tube_in_rack_inches_def
        rack_total_fuse_length_inches_def)
  have fan: "rtype r = ''Fan'' \<and> 0 < x_tubes r \<and> 0 < y_tubes r \<longrightarrow>
        rack_contribution r c =
          of_nat (length (filter (\<lambda>t. color t = c) (tubes r)))
            * ((FAN_CHAIN_LEAD_INCHES
                  + of_int (x_tubes r * (y_tubes r - 1)) * FAN_CHAIN_INTER_TUBE_ALLOWANCE_INCHES
                  + of_int (x_tubes r - 1) * FAN_CHAIN_INTER_SEGMENT_ALLOWANCE_INCHES
                  + FAN_CHAIN_TAIL_INCHES)
                 * FUSE_LENGTH_SCALE_FACTOR / of_int (x_tubes r * y_tubes r))"
    using fan_total_pos [of r]
    by (auto simp: rack_contribution_def fuse_per_tube_in_rack_inches_def
        rack_total_fuse_length_inches_def Let_def max_def)
  show ?thesis using fuse_lengths_sum crate fan by blast
qed

theorem C4_fuse_totals_witness:
  "fuse_lengths_by_color_value [crate_5x5, scenario_fan] ''pink'' = 63 + 6 * (18 * 0.9 / 6)"
  using C4_fuse_totals [of "[crate_5x5, scenario_fan]" "''pink''" crate_5x5]
    C4_fuse_totals [of "[crate_5x5, scenario_fan]" "''pink''" scenario_fan]
  by (simp add: crate_5x5_def scenario_fan_def pink_tube_def DEFAULT_CRATE_FUSE_INCHES_def
     FAN_CHAIN_LEAD_INCHES_def
     FAN_CHAIN_TAIL_INCHES_def FAN_CHAIN_INTER_TUBE_ALLOWANCE_INCHES_def
     FAN_CHAIN_INTER_SEGMENT_ALLOWANCE_INCHES_def FUSE_LENGTH_SCALE_FACTOR_def)

subsection \<open>Order of snapshot and mutation\<close>

text \<open>
  Rotation and deletion take the snapshot first: the top of the undo stack is the state
  before the command. Tube connection takes it after appending the connection.
\<close>

lemma rotate_loop_undo_stack:
  "undo_stack (foldl (\<lambda>st rack_id. st\<lparr>racks_on_canvas := g st rack_id\<rparr>) s ids) = undo_stack s"
  by (induction ids arbitrary: s) simp_all

lemma rotate_records_before_mutation:
  assumes "\<not> truthy_id (selected_flow_line_id s)" and "selected_rack_ids s \<noteq> []"
  shows "last (undo_stack (rotate_selected_racks_action s)) = capture_current_state s"
  using assms
  by (simp add: rotate_selected_racks_action_def Let_def rotate_loop_undo_stack record_top)

lemma delete_records_before_mutation:
  assumes "\<not> truthy_id (selected_flow_line_id s)" and "selected_rack_ids s \<noteq> []"
  shows "last (undo_stack (delete_selected_item s True)) = capture_current_state s"
  using assms
  by (simp add: delete_selected_item_def Let_def record_top split: option.splits)

lemma connect_records_after_mutation:
  assumes "on_canvas_press_connect_tubes_mode s ex ey new_id = Inr s'"
    and "tube_connections s' \<noteq> tube_connections s"
  shows "last (undo_stack s') = capture_current_state s'
     \<and> last (undo_stack s') \<noteq> capture_current_state s"
proof -
  have "\<exists>conn. s' = (record_state_for_undo (s\<lparr>tube_connections := tube_connections s @ [conn]\<rparr>))
            \<lparr>first_tube_for_connection := None\<rparr>"
    using assms
    by (auto simp: on_canvas_press_connect_tubes_mode_def Let_def
        split: if_splits sum.splits option.splits prod.splits)
  then obtain conn where s': "s' = (record_state_for_undo
      (s\<lparr>tube_connections := tube_connections s @ [conn]\<rparr>))\<lparr>first_tube_for_connection := None\<rparr>"
    by blast
  have top: "last (undo_stack s') =
      capture_current_state (s\<lparr>tube_connections := tube_connections s @ [conn]\<rparr>)"
    by (simp add: s' record_top)
  have "capture_current_state s' =
      capture_current_state (s\<lparr>tube_connections := tube_connections s @ [conn]\<rparr>)"
    by (simp add: s' capture_current_state_def record_state_for_undo_def
        push_to_undo_stack_def Let_def)
  moreover have "capture_current_state (s\<lparr>tube_connections := tube_connections s @ [conn]\<rparr>)
      \<noteq> capture_current_state s"
    by (simp add: capture_current_state_def)
  ultimately show ?thesis using top by simp
qed

lemma scenario_crate_points_split:
  "tube_center_points scenario_crate = (0, 26, 38, 20) # tl (tube_center_points scenario_crate)"
proof -
  have "length (tube_center_points scenario_crate) = 6"
    using arg_cong [OF tube_indices [of scenario_crate], of length]
    by (simp add: scenario_crate_def)
  then have "tube_center_points scenario_crate \<noteq> []" by auto
  then have "tube_center_points scenario_crate =
      tube_center_points scenario_crate ! 0 # tl (tube_center_points scenario_crate)"
    by (simp add: hd_conv_nth [symmetric])
  then show ?thesis by (simp add: scenario_crate_point0)
qed

lemma cycle_color_pink: "cycle_color ''pink'' = Inr ''lightblue''"
  by (simp add: cycle_color_def FUSE_COLORS_MAP_def FUSE_COLOR_CHOICES_def)

lemma replicate_6: "replicate 6 x = x # replicate 5 x"
  by (simp add: numeral_eq_Suc)

lemma shift_click_scenario:
  "on_canvas_shift_click scenario_scene 26 38 =
     Inr (record_state_for_undo (scenario_scene\<lparr>racks_on_canvas := [recolored_crate]\<rparr>))"
proof -
  have sel: "selected_rack_ids scenario_scene = [''r1'']"
    and racks: "racks_on_canvas scenario_scene = [scenario_crate]"
    and modes: "\<not> drawing_flow_line_mode scenario_scene" "\<not> connecting_tubes_mode scenario_scene"
    by (simp_all add: scenario_scene_def initial_planner_def)
  have w: "canvas_to_world scenario_scene 26 38 = Inr (26, 38)"
    by (simp add: canvas_to_world_def scenario_scene_def initial_planner_def)
  have id: "rid scenario_crate = ''r1''" and len: "length (tubes scenario_crate) = 6"
    and t0: "tubes scenario_crate = pink_tube # replicate 5 pink_tube"
    by (simp_all add: scenario_crate_def replicate_6)
  have f: "find (\<lambda>tp. tube_hit 26 38 tp \<and> fst tp < length (tubes scenario_crate))
             (tube_center_points scenario_crate) = Some (0, 26, 38, 20)"
    by (subst scenario_crate_points_split) (simp add: tube_hit_def len)
  have c: "color (tubes scenario_crate ! 0) = ''pink''"
    by (simp add: t0 pink_tube_def)
  show ?thesis
    by (simp add: on_canvas_shift_click_def sel racks modes w id f c cycle_color_pink
        recolored_crate_def)
      (simp add: t0)
qed

text \<open>
  C3: the snapshot is taken before the mutation, so the top of the undo stack is the scene
  as it was before the command. The colour cycle violates this: with the scenario rack
  selected, a shift-click on the centre of tube 0 recolours the tube and then takes the
  snapshot, so the top of the undo stack is the scene after the command, it differs from
  the scene before it, and an undo leaves the new colour in place.
\<close>

theorem C3_shift_click_records_after_mutation:
  "\<exists>s'. on_canvas_shift_click scenario_scene 26 38 = Inr s'
      \<and> racks_on_canvas s' = [recolored_crate]
      \<and> racks_on_canvas s' \<noteq> racks_on_canvas scenario_scene
      \<and> last (undo_stack s') = capture_current_state s'
      \<and> last (undo_stack s') \<noteq> capture_current_state scenario_scene
      \<and> racks_on_canvas (undo_action s') = racks_on_canvas s'"
proof -
  let ?m = "scenario_scene\<lparr>racks_on_canvas := [recolored_crate]\<rparr>"
  let ?s = "record_state_for_undo ?m"
  have ne: "recolored_crate \<noteq> scenario_crate"
    by (simp add: recolored_crate_def scenario_crate_def replicate_6 pink_tube_def)
  have r: "racks_on_canvas ?s = [recolored_crate]"
    by (simp add: record_state_for_undo_def push_to_undo_stack_def Let_def)
  have u: "undo_stack ?s = [capture_current_state ?m]"
    by (simp add: record_state_for_undo_def push_to_undo_stack_def Let_def
        MAX_UNDO_STEPS_def scenario_scene_def initial_planner_def)
  have c: "capture_current_state ?s = capture_current_state ?m"
    by (simp add: capture_current_state_def record_state_for_undo_def push_to_undo_stack_def
        Let_def)
  have d: "capture_current_state ?m \<noteq> capture_current_state scenario_scene"
    using ne by (simp add: capture_current_state_def scenario_scene_def)
  have un: "racks_on_canvas (undo_action ?s) = [recolored_crate]"
    by (simp add: undo_action_def u Let_def restore_state_from_history_def
        capture_current_state_def)
  show ?thesis
    using ne by (simp add: shift_click_scenario r u c d un) (simp add: scenario_scene_def)
qed

end
